theory Spec2Isabelle
  imports Complex_Main
begin

section \<open>JavaScript numbers\<close>

text \<open>
  A JavaScript \<^verbatim>\<open>number\<close> is an IEEE-754 double. It is modelled by its value: a finite
  double by the real number it denotes, and the three special values by constructors of
  their own, so that every \<^verbatim>\<open>isFinite\<close>, \<^verbatim>\<open>typeof x === 'number'\<close> and
  truthiness test of the source is a live branch of the model.

  Arithmetic on finite operands is exact here: rounding, overflow to an infinity and the
  sign of zero are not modelled. Comparisons are exact in the source as well, and a
  comparison of a double against the literals \<^verbatim>\<open>0.2\<close> or \<^verbatim>\<open>0.35\<close> agrees
  with the comparison of its value against the decimal, because no double lies strictly
  between a decimal literal and the double nearest to it.

  A value of type \<^verbatim>\<open>number | null\<close>, \<^verbatim>\<open>number | undefined\<close> or an optional
  field is a \<open>jsnum option\<close>; \<open>None\<close> stands for \<^verbatim>\<open>null\<close> and \<^verbatim>\<open>undefined\<close>.
\<close>

datatype jsnum = Fin real | PInf | NInf | NaN

fun isFinite :: "jsnum \<Rightarrow> bool" where
  "isFinite (Fin _) = True"
| "isFinite _ = False"

text \<open>\<^verbatim>\<open>x < y\<close>: false as soon as one side is \<^verbatim>\<open>NaN\<close>.\<close>

fun js_lt :: "jsnum \<Rightarrow> jsnum \<Rightarrow> bool" where
  "js_lt NaN _ = False"
| "js_lt _ NaN = False"
| "js_lt (Fin a) (Fin b) = (a < b)"
| "js_lt (Fin _) PInf = True"
| "js_lt NInf (Fin _) = True"
| "js_lt NInf PInf = True"
| "js_lt _ _ = False"

text \<open>\<^verbatim>\<open>x <= y\<close>.\<close>

fun js_le :: "jsnum \<Rightarrow> jsnum \<Rightarrow> bool" where
  "js_le NaN _ = False"
| "js_le _ NaN = False"
| "js_le (Fin a) (Fin b) = (a \<le> b)"
| "js_le NInf _ = True"
| "js_le _ PInf = True"
| "js_le _ _ = False"

definition js_gt :: "jsnum \<Rightarrow> jsnum \<Rightarrow> bool" where
  "js_gt x y = js_lt y x"

definition js_ge :: "jsnum \<Rightarrow> jsnum \<Rightarrow> bool" where
  "js_ge x y = js_le y x"

text \<open>Truthiness of a number: \<^verbatim>\<open>0\<close> and \<^verbatim>\<open>NaN\<close> are falsy.\<close>

fun truthy :: "jsnum \<Rightarrow> bool" where
  "truthy NaN = False"
| "truthy (Fin a) = (a \<noteq> 0)"
| "truthy _ = True"

fun js_neg :: "jsnum \<Rightarrow> jsnum" where
  "js_neg (Fin a) = Fin (- a)"
| "js_neg PInf = NInf"
| "js_neg NInf = PInf"
| "js_neg NaN = NaN"

fun js_add :: "jsnum \<Rightarrow> jsnum \<Rightarrow> jsnum" where
  "js_add NaN _ = NaN"
| "js_add _ NaN = NaN"
| "js_add (Fin a) (Fin b) = Fin (a + b)"
| "js_add PInf NInf = NaN"
| "js_add NInf PInf = NaN"
| "js_add PInf _ = PInf"
| "js_add _ PInf = PInf"
| "js_add NInf _ = NInf"
| "js_add _ NInf = NInf"

definition js_sub :: "jsnum \<Rightarrow> jsnum \<Rightarrow> jsnum" where
  "js_sub x y = js_add x (js_neg y)"

text \<open>The sign of a non-\<^verbatim>\<open>NaN\<close> number: \<open>-1\<close>, \<open>0\<close> or \<open>1\<close>.\<close>

fun js_sign :: "jsnum \<Rightarrow> int" where
  "js_sign (Fin a) = (if a < 0 then - 1 else if a = 0 then 0 else 1)"
| "js_sign PInf = 1"
| "js_sign NInf = - 1"
| "js_sign NaN = 0"

definition signed_inf :: "int \<Rightarrow> jsnum" where
  "signed_inf s = (if s = 0 then NaN else if 0 < s then PInf else NInf)"

fun js_mul :: "jsnum \<Rightarrow> jsnum \<Rightarrow> jsnum" where
  "js_mul NaN _ = NaN"
| "js_mul _ NaN = NaN"
| "js_mul (Fin a) (Fin b) = Fin (a * b)"
| "js_mul x y = signed_inf (js_sign x * js_sign y)"

fun js_div :: "jsnum \<Rightarrow> jsnum \<Rightarrow> jsnum" where
  "js_div NaN _ = NaN"
| "js_div _ NaN = NaN"
| "js_div (Fin a) (Fin b) = (if b = 0 then signed_inf (js_sign (Fin a)) else Fin (a / b))"
| "js_div (Fin _) _ = Fin 0"
| "js_div x (Fin b) = signed_inf (js_sign x * (if b < 0 then - 1 else 1))"
| "js_div _ _ = NaN"

text \<open>\<^verbatim>\<open>Number(x) || 0\<close> for a field that may be absent: \<^verbatim>\<open>Number(undefined)\<close> is
  \<^verbatim>\<open>NaN\<close>, and a falsy number gives way to \<^verbatim>\<open>0\<close>.\<close>

definition num_or0 :: "jsnum \<Rightarrow> jsnum" where
  "num_or0 x = (if truthy x then x else Fin 0)"

definition optnum_or0 :: "jsnum option \<Rightarrow> jsnum" where
  "optnum_or0 v = (case v of None \<Rightarrow> Fin 0 | Some x \<Rightarrow> num_or0 x)"

section \<open>Health verdict (\<^verbatim>\<open>computeHealthVerdict\<close>, PortfolioAnalyzer.tsx)\<close>

datatype DexLabel = DexSafe | DexCaution | DexDanger | DexUnknown

datatype VerdictLabel = SAFE | RISKY | UNSAFE

record HealthVerdict =
  label :: VerdictLabel
  reasons :: "string list"

record HealthParams =
  volToMc :: "jsnum option"
  lpLockedPct :: "jsnum option"
  tx24 :: "jsnum option"
  priceCh24 :: "jsnum option"
  dexLabel :: "DexLabel option"
  ageMin :: "jsnum option"
  marketCap :: "jsnum option"

text \<open>The two local variables the function updates: \<^verbatim>\<open>score\<close> (an integer throughout,
  since it starts at 50 and only integers are added) and the \<^verbatim>\<open>reasons\<close> array.\<close>

type_synonym hstate = "int \<times> string list"

text \<open>\<^verbatim>\<open>score += d; reasons.push(r)\<close>\<close>

definition bump :: "int \<Rightarrow> string \<Rightarrow> hstate \<Rightarrow> hstate" where
  "bump d r st = (fst st + d, snd st @ [r])"

definition ruleVolToMc :: "jsnum option \<Rightarrow> hstate \<Rightarrow> hstate" where
  "ruleVolToMc v st =
     (case v of
        None \<Rightarrow> st
      | Some x \<Rightarrow>
          if isFinite x then
            (if js_ge x (Fin 1) then bump 20 ''volume/mc strong'' st
             else if js_ge x (Fin 0.2) then bump 5 ''volume/mc moderate'' st
             else bump (- 20) ''volume/mc weak'' st)
          else st)"

definition ruleLpLocked :: "jsnum option \<Rightarrow> hstate \<Rightarrow> hstate" where
  "ruleLpLocked v st =
     (case v of
        None \<Rightarrow> st
      | Some x \<Rightarrow>
          if js_ge x (Fin 75) then bump 15 ''LP locked high'' st
          else if js_lt x (Fin 25) then bump (- 15) ''LP lock low'' st
          else st)"

definition ruleTx24 :: "jsnum option \<Rightarrow> hstate \<Rightarrow> hstate" where
  "ruleTx24 v st =
     (case v of
        None \<Rightarrow> st
      | Some x \<Rightarrow>
          if isFinite x then
            (if js_ge x (Fin 1000) then bump 5 ''tx active'' st
             else if js_lt x (Fin 50) then bump (- 5) ''tx low'' st
             else st)
          else st)"

definition rulePriceCh24 :: "jsnum option \<Rightarrow> hstate \<Rightarrow> hstate" where
  "rulePriceCh24 v st =
     (case v of
        None \<Rightarrow> st
      | Some x \<Rightarrow>
          if isFinite x then
            (let st1 = (if js_gt x (Fin 400) then bump (- 10) ''extreme pump'' st else st)
             in if js_lt x (Fin (- 60)) then bump (- 10) ''dumping'' st1 else st1)
          else st)"

definition ruleDexLabel :: "DexLabel option \<Rightarrow> hstate \<Rightarrow> hstate" where
  "ruleDexLabel l st =
     (let st1 = (if l = Some DexSafe then bump 5 ''dex risk: safe'' st else st)
      in if l = Some DexDanger then bump (- 10) ''dex risk: danger'' st1 else st1)"

text \<open>The user rule, with the source's own guard: \<^verbatim>\<open>typeof ageMin === 'number' && ageMin > 50
  && typeof marketCap === 'number' && isFinite(marketCap) && marketCap < 20_000\<close>.\<close>

definition ruleAgeMc :: "jsnum option \<Rightarrow> jsnum option \<Rightarrow> hstate \<Rightarrow> hstate" where
  "ruleAgeMc a m st =
     (case a of
        None \<Rightarrow> st
      | Some x \<Rightarrow>
          if js_gt x (Fin 50) then
            (case m of
               None \<Rightarrow> st
             | Some y \<Rightarrow>
                 if isFinite y \<and> js_lt y (Fin 20000) then bump (- 10) ''age>50m & mc<20k'' st
                 else st)
          else st)"

text \<open>The state after the six blocks, run in the order of the source from
  \<^verbatim>\<open>score = 50, reasons = []\<close>.\<close>

definition scoreRun :: "HealthParams \<Rightarrow> hstate" where
  "scoreRun p =
     ruleAgeMc (ageMin p) (marketCap p)
       (ruleDexLabel (dexLabel p)
         (rulePriceCh24 (priceCh24 p)
           (ruleTx24 (tx24 p)
             (ruleLpLocked (lpLockedPct p)
               (ruleVolToMc (volToMc p) (50, []))))))"

definition labelOf :: "int \<Rightarrow> VerdictLabel" where
  "labelOf score = (if 70 \<le> score then SAFE else if score \<le> 40 then UNSAFE else RISKY)"

definition computeHealthVerdict :: "HealthParams \<Rightarrow> HealthVerdict" where
  "computeHealthVerdict p =
     (let st = scoreRun p in \<lparr>label = labelOf (fst st), reasons = snd st\<rparr>)"

text \<open>What one block adds to the score, read off by running it alone from score 0.\<close>

definition delta :: "(hstate \<Rightarrow> hstate) \<Rightarrow> int" where
  "delta rule = fst (rule (0, []))"

subsection \<open>The documented adjustments\<close>

text \<open>
  The score in the words of the specification (section 4.1), to compare the function
  with: a baseline of 50 and six independent adjustments. A band such as
  \<^verbatim>\<open>tx24 >= 1000\<close> is read as the comparison it names, on any number; a finiteness
  requirement is read only where the specification states one (the volume ratio is "only
  applied if the ratio is a finite number", the compound rule "requires both conditions to
  be present and finite").
\<close>

definition docVolToMc :: "jsnum option \<Rightarrow> int" where
  "docVolToMc v =
     (case v of
        Some (Fin x) \<Rightarrow> if 1 \<le> x then 20 else if 0.2 \<le> x then 5 else - 20
      | _ \<Rightarrow> 0)"

definition docLpLocked :: "jsnum option \<Rightarrow> int" where
  "docLpLocked v =
     (case v of
        None \<Rightarrow> 0
      | Some x \<Rightarrow> if js_ge x (Fin 75) then 15 else if js_lt x (Fin 25) then - 15 else 0)"

definition docTx24 :: "jsnum option \<Rightarrow> int" where
  "docTx24 v =
     (case v of
        None \<Rightarrow> 0
      | Some x \<Rightarrow> if js_ge x (Fin 1000) then 5 else if js_lt x (Fin 50) then - 5 else 0)"

definition docPriceCh24 :: "jsnum option \<Rightarrow> int" where
  "docPriceCh24 v =
     (case v of
        None \<Rightarrow> 0
      | Some x \<Rightarrow>
          (if js_gt x (Fin 400) then - 10 else 0) + (if js_lt x (Fin (- 60)) then - 10 else 0))"

definition docRiskLabel :: "DexLabel option \<Rightarrow> int" where
  "docRiskLabel l = (case l of Some DexSafe \<Rightarrow> 5 | Some DexDanger \<Rightarrow> - 10 | _ \<Rightarrow> 0)"

definition docCompound :: "jsnum option \<Rightarrow> jsnum option \<Rightarrow> int" where
  "docCompound a m =
     (case a of
        Some (Fin x) \<Rightarrow>
          (case m of Some (Fin y) \<Rightarrow> if 50 < x \<and> y < 20000 then - 10 else 0 | _ \<Rightarrow> 0)
      | _ \<Rightarrow> 0)"

definition documentedScore :: "HealthParams \<Rightarrow> int" where
  "documentedScore p =
     50 + docVolToMc (volToMc p) + docLpLocked (lpLockedPct p) + docTx24 (tx24 p)
        + docPriceCh24 (priceCh24 p) + docRiskLabel (dexLabel p)
        + docCompound (ageMin p) (marketCap p)"

section \<open>Supply (the memo \<^verbatim>\<open>supply\<close> of \<^verbatim>\<open>MemeScanner\<close>, PortfolioAnalyzer.tsx)\<close>

text \<open>The report is \<^verbatim>\<open>undefined\<close> until it is loaded, and the source guards the token
  (\<^verbatim>\<open>!report?.token\<close>), its decimals (\<^verbatim>\<open>?? 0\<close>) and its supply
  (\<^verbatim>\<open>Number.isFinite(raw)\<close>) against being absent: each is an option here.\<close>

record RugToken =
  tok_supply :: "jsnum option"
  tok_decimals :: "jsnum option"

record RugReport =
  token :: "RugToken option"

text \<open>\<^verbatim>\<open>Math.pow(10, d)\<close>\<close>

fun pow10 :: "jsnum \<Rightarrow> jsnum" where
  "pow10 (Fin d) = Fin (10 powr d)"
| "pow10 PInf = PInf"
| "pow10 NInf = Fin 0"
| "pow10 NaN = NaN"

text \<open>\<^verbatim>\<open>report?.token\<close>\<close>

definition tokenOf :: "RugReport option \<Rightarrow> RugToken option" where
  "tokenOf report = (case report of None \<Rightarrow> None | Some r \<Rightarrow> token r)"

text \<open>\<^verbatim>\<open>report.token.decimals ?? 0\<close>\<close>

definition decimalsOf :: "RugToken \<Rightarrow> jsnum" where
  "decimalsOf t = (case tok_decimals t of None \<Rightarrow> Fin 0 | Some d \<Rightarrow> d)"

text \<open>The constant \<^verbatim>\<open>computed\<close>: \<^verbatim>\<open>Number.isFinite(raw) ? raw / Math.pow(10, d) : null\<close>\<close>

definition computedSupply :: "RugToken \<Rightarrow> jsnum option" where
  "computedSupply t =
     (case tok_supply t of
        None \<Rightarrow> None
      | Some raw \<Rightarrow> if isFinite raw then Some (js_div raw (pow10 (decimalsOf t))) else None)"

definition supplyMemo :: "RugReport option \<Rightarrow> jsnum" where
  "supplyMemo report =
     (case tokenOf report of
        None \<Rightarrow> Fin 999999999
      | Some t \<Rightarrow>
          (case computedSupply t of
             None \<Rightarrow> Fin 1000000000
           | Some computed \<Rightarrow>
               if isFinite computed \<and> js_gt computed (Fin 0) then computed
               else Fin 1000000000))"

section \<open>Sticky price (\<^verbatim>\<open>priceUsd\<close>, \<^verbatim>\<open>priceUsdStable\<close> of \<^verbatim>\<open>MemeScanner\<close>)\<close>

record PriceResp =
  resp_price :: "jsnum option"
  isFallback :: bool

text \<open>The live price of a render; \<^verbatim>\<open>priceResp\<close> is \<^verbatim>\<open>undefined\<close> before the first
  answer.\<close>

definition priceUsd :: "PriceResp option \<Rightarrow> jsnum option" where
  "priceUsd priceResp =
     (case priceResp of
        None \<Rightarrow> None
      | Some r \<Rightarrow> if isFallback r then None else resp_price r)"

text \<open>\<^verbatim>\<open>typeof x === 'number' && isFinite(x)\<close>\<close>

definition finiteNumber :: "jsnum option \<Rightarrow> bool" where
  "finiteNumber v = (case v of None \<Rightarrow> False | Some x \<Rightarrow> isFinite x)"

text \<open>The effect on \<^verbatim>\<open>priceUsdStable\<close>, the component state that starts as
  \<^verbatim>\<open>null\<close>: \<^verbatim>\<open>if (typeof priceUsd === 'number' && isFinite(priceUsd))
  setPriceUsdStable(priceUsd)\<close>. No other code writes this state.\<close>

definition priceEffect :: "jsnum option \<Rightarrow> jsnum option \<Rightarrow> jsnum option" where
  "priceEffect sticky p = (if finiteNumber p then p else sticky)"

text \<open>What the Price card shows: \<^verbatim>\<open>priceUsdStable ?? priceUsd\<close>, and the placeholder
  when that is \<^verbatim>\<open>null\<close> (\<open>None\<close>).\<close>

definition priceShown :: "jsnum option \<Rightarrow> jsnum option \<Rightarrow> jsnum option" where
  "priceShown sticky p = (case sticky of Some v \<Rightarrow> Some v | None \<Rightarrow> p)"

text \<open>One tick of the price poll: the component renders with the new answer and the old
  state, the effect runs, and the component renders again with the new state. The tick
  yields the new state and the two values shown.\<close>

definition priceTick :: "jsnum option \<Rightarrow> PriceResp option \<Rightarrow> jsnum option" where
  "priceTick sticky priceResp = priceEffect sticky (priceUsd priceResp)"

definition shownDuring :: "jsnum option \<Rightarrow> PriceResp option \<Rightarrow> jsnum option list" where
  "shownDuring sticky priceResp =
     [priceShown sticky (priceUsd priceResp),
      priceShown (priceTick sticky priceResp) (priceUsd priceResp)]"

fun shownOver :: "jsnum option \<Rightarrow> PriceResp option list \<Rightarrow> jsnum option list" where
  "shownOver sticky [] = []"
| "shownOver sticky (r # rs) = shownDuring sticky r @ shownOver (priceTick sticky r) rs"

section \<open>Application state (App.tsx, PortfolioAnalyzer.tsx, TradePanel.tsx)\<close>

text \<open>A JavaScript string is its list of UTF-16 code units; \<^verbatim>\<open>length\<close> counts them.
  Timestamps are epoch milliseconds, integers.\<close>

type_synonym jsstring = "nat list"

datatype Side = Buy | Sell

record HistoryItem =
  h_id :: jsstring
  h_ts :: int
  h_side :: Side
  h_mint :: jsstring
  h_name :: "jsstring option"
  h_symbol :: "jsstring option"
  h_price :: jsnum
  h_qty :: jsnum
  h_value :: jsnum
  h_fee :: "jsnum option"
  h_marketCap :: "jsnum option"

record Position =
  pos_qty :: jsnum
  pos_avgPrice :: jsnum
  pos_name :: "jsstring option"
  pos_symbol :: "jsstring option"

record Deposit =
  dep_ts :: int
  dep_amount :: jsnum

record AppState =
  user_name :: jsstring
  user_balance :: jsnum
  positions :: "jsstring \<rightharpoonup> Position"
  history :: "HistoryItem list"
  deposits :: "Deposit list"

text \<open>\<^verbatim>\<open>data?.history || []\<close>\<close>

definition historyOf :: "AppState option \<Rightarrow> HistoryItem list" where
  "historyOf data = (case data of None \<Rightarrow> [] | Some d \<Rightarrow> history d)"

text \<open>\<^verbatim>\<open>xs.reduce((a, x) => a + f(x), 0)\<close>\<close>

definition sumBy :: "('a \<Rightarrow> jsnum) \<Rightarrow> 'a list \<Rightarrow> jsnum" where
  "sumBy f xs = foldl (\<lambda>a x. js_add a (f x)) (Fin 0) xs"

section \<open>Ledger aggregates and timeframe statistics (PortfolioAnalyzer.tsx)\<close>

definition ledgerBuyCost :: "AppState option \<Rightarrow> jsnum" where
  "ledgerBuyCost data =
     sumBy (\<lambda>h. num_or0 (h_value h)) (filter (\<lambda>h. h_side h = Buy) (historyOf data))"

definition ledgerSellProceeds :: "AppState option \<Rightarrow> jsnum" where
  "ledgerSellProceeds data =
     sumBy (\<lambda>h. num_or0 (h_value h)) (filter (\<lambda>h. h_side h = Sell) (historyOf data))"

definition ledgerTotalFees :: "AppState option \<Rightarrow> jsnum" where
  "ledgerTotalFees data = sumBy (\<lambda>h. optnum_or0 (h_fee h)) (historyOf data)"

definition realizedPnL :: "AppState option \<Rightarrow> jsnum" where
  "realizedPnL data =
     js_sub (js_sub (ledgerSellProceeds data) (ledgerBuyCost data)) (ledgerTotalFees data)"

datatype Timeframe = TfAll | Tf7d | Tf24h | Tf12h | Tf6h | Tf1h

text \<open>The start of the window, from \<^verbatim>\<open>now = Date.now()\<close>.\<close>

definition windowStart :: "int \<Rightarrow> Timeframe \<Rightarrow> int" where
  "windowStart now timeframe =
     (case timeframe of
        Tf1h \<Rightarrow> now - 1 * 3600000
      | Tf6h \<Rightarrow> now - 6 * 3600000
      | Tf12h \<Rightarrow> now - 12 * 3600000
      | Tf24h \<Rightarrow> now - 24 * 3600000
      | Tf7d \<Rightarrow> now - 7 * 24 * 3600000
      | TfAll \<Rightarrow> 0)"

record TfAcc =
  acc_buys :: jsnum
  acc_sells :: jsnum
  acc_fees :: jsnum

text \<open>The body of the \<^verbatim>\<open>for (const h of hist)\<close> loop.\<close>

definition tfStep :: "int \<Rightarrow> TfAcc \<Rightarrow> HistoryItem \<Rightarrow> TfAcc" where
  "tfStep start acc h =
     (if start \<le> h_ts h then
        \<lparr>acc_buys = js_add (acc_buys acc) (if h_side h = Buy then num_or0 (h_value h) else Fin 0),
         acc_sells = js_add (acc_sells acc) (if h_side h = Sell then num_or0 (h_value h) else Fin 0),
         acc_fees = js_add (acc_fees acc) (optnum_or0 (h_fee h))\<rparr>
      else acc)"

record TfStats =
  tf_pnl :: jsnum
  tf_roi :: "jsnum option"

text \<open>The aggregation for a given window start.\<close>

definition timeframeAgg :: "int \<Rightarrow> HistoryItem list \<Rightarrow> TfStats" where
  "timeframeAgg start hist =
     (let acc = foldl (tfStep start) \<lparr>acc_buys = Fin 0, acc_sells = Fin 0, acc_fees = Fin 0\<rparr> hist;
          pnl = js_sub (js_sub (acc_sells acc) (acc_buys acc)) (acc_fees acc);
          roi = (if js_gt (acc_buys acc) (Fin 0)
                 then Some (js_mul (js_div pnl (acc_buys acc)) (Fin 100)) else None)
      in \<lparr>tf_pnl = pnl, tf_roi = roi\<rparr>)"

definition timeframeStats :: "int \<Rightarrow> Timeframe \<Rightarrow> AppState option \<Rightarrow> TfStats" where
  "timeframeStats now timeframe data =
     timeframeAgg (windowStart now timeframe) (historyOf data)"

section \<open>Activity grouped by token (\<^verbatim>\<open>groupedActivity\<close>, App.tsx)\<close>

text \<open>Truthiness of an optional string: \<^verbatim>\<open>undefined\<close> and \<^verbatim>\<open>''\<close> are falsy.\<close>

definition strTruthy :: "jsstring option \<Rightarrow> bool" where
  "strTruthy s = (case s of None \<Rightarrow> False | Some cs \<Rightarrow> cs \<noteq> [])"

record Group =
  mint :: jsstring
  name :: "jsstring option"
  symbol :: "jsstring option"
  buys :: "HistoryItem list"
  sells :: "HistoryItem list"
  lastTs :: int
  totalBuyQty :: jsnum
  totalSellQty :: jsnum
  lastAction :: "Side option"

text \<open>The \<^verbatim>\<open>Map\<close> of the loop keeps its keys in insertion order: an association list,
  where \<^verbatim>\<open>set\<close> replaces the value of a key in place and appends a new key.\<close>

type_synonym groupMap = "(jsstring \<times> Group) list"

fun mapSet :: "jsstring \<Rightarrow> Group \<Rightarrow> groupMap \<Rightarrow> groupMap" where
  "mapSet k g [] = [(k, g)]"
| "mapSet k g ((k', g') # kgs) = (if k' = k then (k, g) # kgs else (k', g') # mapSet k g kgs)"

text \<open>The group a history item starts when its mint is not in the map yet.\<close>

definition newGroup :: "HistoryItem \<Rightarrow> Group" where
  "newGroup h =
     \<lparr>mint = h_mint h, name = h_name h, symbol = h_symbol h, buys = [], sells = [],
      lastTs = h_ts h, totalBuyQty = Fin 0, totalSellQty = Fin 0, lastAction = Some (h_side h)\<rparr>"

text \<open>The updates of the loop body on the group \<^verbatim>\<open>g\<close>, statement by statement. The
  test \<^verbatim>\<open>typeof h.qty === 'number'\<close> holds for every \<open>jsnum\<close>.\<close>

definition addToGroup :: "HistoryItem \<Rightarrow> Group \<Rightarrow> Group" where
  "addToGroup h g =
     (let g1 = (if h_side h = Buy then g\<lparr>buys := buys g @ [h]\<rparr> else g\<lparr>sells := sells g @ [h]\<rparr>);
          g2 = (if lastTs g1 < h_ts h then g1\<lparr>lastTs := h_ts h\<rparr> else g1);
          g3 = (if \<not> strTruthy (name g2) \<and> strTruthy (h_name h) then g2\<lparr>name := h_name h\<rparr> else g2);
          g4 = (if \<not> strTruthy (symbol g3) \<and> strTruthy (h_symbol h)
                then g3\<lparr>symbol := h_symbol h\<rparr> else g3);
          g5 = (if h_side h = Buy
                then g4\<lparr>totalBuyQty := js_add (totalBuyQty g4) (num_or0 (h_qty h))\<rparr>
                else g4\<lparr>totalSellQty := js_add (totalSellQty g4) (num_or0 (h_qty h))\<rparr>)
      in g5\<lparr>lastAction := (if lastTs g5 \<le> h_ts h then Some (h_side h) else lastAction g5)\<rparr>)"

definition groupStep :: "groupMap \<Rightarrow> HistoryItem \<Rightarrow> groupMap" where
  "groupStep m h =
     (let g = (case map_of m (h_mint h) of Some g' \<Rightarrow> g' | None \<Rightarrow> newGroup h)
      in mapSet (h_mint h) (addToGroup h g) m)"

text \<open>\<^verbatim>\<open>xs.slice().sort((a, b) => b.ts - a.ts)[0]\<close>: the first item of the stable sort by
  descending timestamp, \<^verbatim>\<open>undefined\<close> on an empty array.\<close>

definition latestOf :: "HistoryItem list \<Rightarrow> HistoryItem option" where
  "latestOf xs = (case sort_key (\<lambda>x. - h_ts x) xs of [] \<Rightarrow> None | x # _ \<Rightarrow> Some x)"

text \<open>The quantity-weighted price of one side.\<close>

definition weightedPrice :: "HistoryItem list \<Rightarrow> jsnum option" where
  "weightedPrice xs =
     (let totalQty = sumBy (\<lambda>x. num_or0 (h_qty x)) xs
      in if js_le totalQty (Fin 0) then None
         else Some (js_div (sumBy (\<lambda>x. js_mul (num_or0 (h_price x)) (num_or0 (h_qty x))) xs)
                      totalQty))"

record Item = Group +
  buyCost :: jsnum
  sellProceeds :: jsnum
  fees :: jsnum
  pnl :: jsnum
  pnlPct :: "jsnum option"
  buyWeightedPrice :: "jsnum option"
  sellWeightedPrice :: "jsnum option"
  lastBuy :: "HistoryItem option"
  lastSell :: "HistoryItem option"

text \<open>The function mapped over the groups: \<^verbatim>\<open>{ ...g, buyCost, sellProceeds, ... }\<close>.\<close>

definition itemOf :: "Group \<Rightarrow> Item" where
  "itemOf g =
     (let bc = sumBy (\<lambda>x. num_or0 (h_value x)) (buys g);
          sp = sumBy (\<lambda>x. num_or0 (h_value x)) (sells g);
          fs = sumBy (\<lambda>x. optnum_or0 (h_fee x)) (buys g @ sells g);
          pl = js_sub (js_sub sp bc) fs;
          pct = (if js_gt bc (Fin 0) then Some (js_mul (js_div pl bc) (Fin 100)) else None)
      in Group.extend g
           (Item.fields bc sp fs pl pct (weightedPrice (buys g)) (weightedPrice (sells g))
              (latestOf (buys g)) (latestOf (sells g))))"

text \<open>The groups in insertion order, turned into items and sorted by latest activity,
  descending (\<^verbatim>\<open>Array.prototype.sort\<close> is stable).\<close>

definition groupedActivity :: "AppState option \<Rightarrow> Item list" where
  "groupedActivity state =
     sort_key (\<lambda>i. - lastTs i) (map (itemOf \<circ> snd) (foldl groupStep [] (historyOf state)))"

section \<open>Trade panel (TradePanel.tsx)\<close>

text \<open>\<^verbatim>\<open>data\<close> is \<^verbatim>\<open>undefined\<close> until the state is loaded.\<close>

definition balanceOf :: "AppState option \<Rightarrow> jsnum" where
  "balanceOf data = (case data of None \<Rightarrow> Fin 0 | Some d \<Rightarrow> user_balance d)"

definition posOf :: "AppState option \<Rightarrow> jsstring \<Rightarrow> Position option" where
  "posOf data m = (case data of None \<Rightarrow> None | Some d \<Rightarrow> positions d m)"

definition qtyHeld :: "AppState option \<Rightarrow> jsstring \<Rightarrow> jsnum" where
  "qtyHeld data m = (case posOf data m of None \<Rightarrow> Fin 0 | Some p \<Rightarrow> pos_qty p)"

definition avgPrice :: "AppState option \<Rightarrow> jsstring \<Rightarrow> jsnum" where
  "avgPrice data m = (case posOf data m of None \<Rightarrow> Fin 0 | Some p \<Rightarrow> pos_avgPrice p)"

text \<open>The memo \<^verbatim>\<open>pnl\<close> of the panel, on \<^verbatim>\<open>currentPrice\<close>, \<^verbatim>\<open>avgPrice\<close> and
  \<^verbatim>\<open>qtyHeld\<close>. \<^verbatim>\<open>!currentPrice\<close> holds for \<^verbatim>\<open>null\<close>, \<^verbatim>\<open>0\<close> and \<^verbatim>\<open>NaN\<close>.\<close>

definition panelPnl :: "jsnum option \<Rightarrow> jsnum \<Rightarrow> jsnum \<Rightarrow> jsnum" where
  "panelPnl currentPrice avg held =
     (case currentPrice of
        None \<Rightarrow> Fin 0
      | Some cp \<Rightarrow>
          if \<not> truthy cp \<or> \<not> truthy held then Fin 0
          else js_mul (js_sub cp avg) held)"

text \<open>\<^verbatim>\<open>currentPrice ?? 0\<close>\<close>

definition effPrice :: "jsnum option \<Rightarrow> jsnum" where
  "effPrice currentPrice = (case currentPrice of None \<Rightarrow> Fin 0 | Some p \<Rightarrow> p)"

definition TX_FEE :: jsnum where
  "TX_FEE = Fin 0.35"

text \<open>\<^verbatim>\<open>effPrice ? (usd || 0) / effPrice : 0\<close>\<close>

definition effectiveQty :: "jsnum \<Rightarrow> jsnum \<Rightarrow> jsnum" where
  "effectiveQty usd ep = (if truthy ep then js_div (num_or0 usd) ep else Fin 0)"

text \<open>\<^verbatim>\<open>effPrice && effectiveQty ? effPrice * effectiveQty : 0\<close>\<close>

definition totalCost :: "jsnum \<Rightarrow> jsnum \<Rightarrow> jsnum" where
  "totalCost ep eq = (if truthy ep \<and> truthy eq then js_mul ep eq else Fin 0)"

definition grandTotal :: "jsnum \<Rightarrow> jsnum" where
  "grandTotal tc = js_add tc (if js_gt tc (Fin 0) then TX_FEE else Fin 0)"

text \<open>The panel's inputs: the props \<^verbatim>\<open>mint\<close> and \<^verbatim>\<open>currentPrice\<close>, the amount
  \<^verbatim>\<open>usd\<close> typed by the user and the loaded state.\<close>

definition canBuy :: "jsstring \<Rightarrow> jsnum option \<Rightarrow> jsnum \<Rightarrow> AppState option \<Rightarrow> bool" where
  "canBuy m currentPrice usd data =
     (let ep = effPrice currentPrice;
          eq = effectiveQty usd ep;
          tc = totalCost ep eq
      in m \<noteq> [] \<and> js_gt ep (Fin 0) \<and> js_gt eq (Fin 0) \<and> js_le tc (balanceOf data))"

section \<open>Mint validation and the scan action (PortfolioAnalyzer.tsx)\<close>

text \<open>The code units \<^verbatim>\<open>String.prototype.trim\<close> strips: the white space and line
  terminators of ECMAScript (TAB, LF, VT, FF, CR, SP, NBSP, U+1680, U+2000 to U+200A,
  U+2028, U+2029, U+202F, U+205F, U+3000, U+FEFF).\<close>

definition isWhiteSpace :: "nat \<Rightarrow> bool" where
  "isWhiteSpace c =
     (c \<in> {9, 10, 11, 12, 13, 32, 160, 5760, 8232, 8233, 8239, 8287, 12288, 65279}
      \<or> (8192 \<le> c \<and> c \<le> 8202))"

definition trim :: "jsstring \<Rightarrow> jsstring" where
  "trim s = rev (dropWhile isWhiteSpace (rev (dropWhile isWhiteSpace s)))"

text \<open>A code unit in a range \<^verbatim>\<open>a-b\<close> of a character class.\<close>

definition inRange :: "char \<Rightarrow> char \<Rightarrow> nat \<Rightarrow> bool" where
  "inRange a b c = (of_char a \<le> c \<and> c \<le> of_char b)"

text \<open>The class \<^verbatim>\<open>[1-9A-HJ-NP-Za-km-z]\<close>\<close>

definition base58Class :: "nat \<Rightarrow> bool" where
  "base58Class c =
     (inRange CHR ''1'' CHR ''9'' c \<or> inRange CHR ''A'' CHR ''H'' c \<or> inRange CHR ''J'' CHR ''N'' c
      \<or> inRange CHR ''P'' CHR ''Z'' c \<or> inRange CHR ''a'' CHR ''k'' c \<or> inRange CHR ''m'' CHR ''z'' c)"

text \<open>\<^verbatim>\<open>BASE58_RE.test(s)\<close> for \<^verbatim>\<open>/^[1-9A-HJ-NP-Za-km-z]+$/\<close>: without the \<^verbatim>\<open>m\<close>
  flag the anchors are the two ends of the string, so the whole string is one or more
  code units of the class.\<close>

definition BASE58_RE_test :: "jsstring \<Rightarrow> bool" where
  "BASE58_RE_test s = (s \<noteq> [] \<and> list_all base58Class s)"

definition isValidMint :: "jsstring \<Rightarrow> bool" where
  "isValidMint m = (let s = trim m in 32 \<le> length s \<and> length s \<le> 44 \<and> BASE58_RE_test s)"

text \<open>The scanner's two pieces of state and the handlers that write them. A query for
  the report, the price and the exchange data is keyed on \<^verbatim>\<open>searchedMint\<close> and runs
  only while it is not \<^verbatim>\<open>null\<close>.\<close>

record ScanState =
  inputMint :: jsstring
  searchedMint :: "jsstring option"

datatype ScanEvent =
    Change jsstring
  | Paste jsstring
  | KeyDown jsstring
  | ClickScan
  | ClickClear

definition canScan :: "ScanState \<Rightarrow> bool" where
  "canScan st = isValidMint (inputMint st)"

definition keyEnter :: jsstring where
  "keyEnter = map of_char ''Enter''"

fun scanStep :: "ScanState \<Rightarrow> ScanEvent \<Rightarrow> ScanState" where
  "scanStep st (Change v) = st\<lparr>inputMint := v\<rparr>"
| "scanStep st (Paste text) = (if text \<noteq> [] then st\<lparr>inputMint := trim text\<rparr> else st)"
| "scanStep st (KeyDown key) =
     (if key = keyEnter \<and> canScan st then st\<lparr>searchedMint := Some (trim (inputMint st))\<rparr> else st)"
| "scanStep st ClickScan =
     (if canScan st then st\<lparr>searchedMint := Some (trim (inputMint st))\<rparr> else st)"
| "scanStep st ClickClear = st\<lparr>inputMint := [], searchedMint := None\<rparr>"

text \<open>The component mounts with the \<^verbatim>\<open>mint\<close> prop as input and nothing searched.\<close>

definition scanInit :: "jsstring \<Rightarrow> ScanState" where
  "scanInit m = \<lparr>inputMint = m, searchedMint = None\<rparr>"

text \<open>What the claims call Base58, in the words of the specification: the digits 1 to 9
  and the ASCII letters, without \<^verbatim>\<open>0\<close>, \<^verbatim>\<open>O\<close>, \<^verbatim>\<open>I\<close> and \<^verbatim>\<open>l\<close>.\<close>

definition specBase58 :: "nat \<Rightarrow> bool" where
  "specBase58 c =
     ((inRange CHR ''0'' CHR ''9'' c \<or> inRange CHR ''A'' CHR ''Z'' c \<or> inRange CHR ''a'' CHR ''z'' c)
      \<and> c \<notin> of_char ` {CHR ''0'', CHR ''O'', CHR ''I'', CHR ''l''})"

section \<open>Example data\<close>

text \<open>The trades of the specification's example: one buy of 10 units at price 2 (value
  20) and one sell of 10 units at price 3 (value 30) of the same token, with no fees.\<close>

definition exBuy :: HistoryItem where
  "exBuy =
     \<lparr>h_id = map of_char ''t1'', h_ts = 1000, h_side = Buy, h_mint = map of_char ''MintA'',
      h_name = Some (map of_char ''Alpha''), h_symbol = Some (map of_char ''ALP''),
      h_price = Fin 2, h_qty = Fin 10, h_value = Fin 20, h_fee = Some (Fin 0),
      h_marketCap = None\<rparr>"

definition exSell :: HistoryItem where
  "exSell =
     \<lparr>h_id = map of_char ''t2'', h_ts = 2000, h_side = Sell, h_mint = map of_char ''MintA'',
      h_name = Some (map of_char ''Alpha''), h_symbol = Some (map of_char ''ALP''),
      h_price = Fin 3, h_qty = Fin 10, h_value = Fin 30, h_fee = None,
      h_marketCap = None\<rparr>"

definition exState :: "HistoryItem list \<Rightarrow> AppState" where
  "exState hist =
     \<lparr>user_name = map of_char ''user'', user_balance = Fin 10, positions = Map.empty,
      history = hist, deposits = []\<rparr>"

section \<open>Properties of the health verdict\<close>

lemma fst_bump: "fst (bump d r st) = fst st + d"
  by (simp add: bump_def)

lemma ruleVolToMc_additive: "fst (ruleVolToMc v st) = fst st + delta (ruleVolToMc v)"
  by (simp add: ruleVolToMc_def delta_def fst_bump split: option.split)

lemma ruleLpLocked_additive: "fst (ruleLpLocked v st) = fst st + delta (ruleLpLocked v)"
  by (simp add: ruleLpLocked_def delta_def fst_bump split: option.split)

lemma ruleTx24_additive: "fst (ruleTx24 v st) = fst st + delta (ruleTx24 v)"
  by (simp add: ruleTx24_def delta_def fst_bump split: option.split)

lemma rulePriceCh24_additive: "fst (rulePriceCh24 v st) = fst st + delta (rulePriceCh24 v)"
  by (simp add: rulePriceCh24_def delta_def fst_bump Let_def split: option.split)

lemma ruleDexLabel_additive: "fst (ruleDexLabel l st) = fst st + delta (ruleDexLabel l)"
  by (simp add: ruleDexLabel_def delta_def fst_bump Let_def)

lemma ruleAgeMc_additive: "fst (ruleAgeMc a m st) = fst st + delta (ruleAgeMc a m)"
  by (simp add: ruleAgeMc_def delta_def fst_bump split: option.split)

lemma scoreRun_additive:
  "fst (scoreRun p) =
     50 + delta (ruleVolToMc (volToMc p)) + delta (ruleLpLocked (lpLockedPct p))
        + delta (ruleTx24 (tx24 p)) + delta (rulePriceCh24 (priceCh24 p))
        + delta (ruleDexLabel (dexLabel p)) + delta (ruleAgeMc (ageMin p) (marketCap p))"
proof -
  have "fst (scoreRun p) =
      fst (ruleDexLabel (dexLabel p)
         (rulePriceCh24 (priceCh24 p)
           (ruleTx24 (tx24 p)
             (ruleLpLocked (lpLockedPct p)
               (ruleVolToMc (volToMc p) (50, []))))))
      + delta (ruleAgeMc (ageMin p) (marketCap p))"
    unfolding scoreRun_def by (rule ruleAgeMc_additive)
  also have "fst (ruleDexLabel (dexLabel p)
         (rulePriceCh24 (priceCh24 p)
           (ruleTx24 (tx24 p)
             (ruleLpLocked (lpLockedPct p)
               (ruleVolToMc (volToMc p) (50, [])))))) =
      50 + delta (ruleVolToMc (volToMc p)) + delta (ruleLpLocked (lpLockedPct p))
        + delta (ruleTx24 (tx24 p)) + delta (rulePriceCh24 (priceCh24 p))
        + delta (ruleDexLabel (dexLabel p))"
    by (simp only: ruleDexLabel_additive rulePriceCh24_additive ruleTx24_additive
        ruleLpLocked_additive ruleVolToMc_additive fst_conv)
  finally show ?thesis .
qed

text \<open>What each block adds: nothing for an absent input, and for a finite input the
  adjustment of its band.\<close>

lemma delta_absent:
  "delta (ruleVolToMc None) = 0" "delta (ruleLpLocked None) = 0" "delta (ruleTx24 None) = 0"
  "delta (rulePriceCh24 None) = 0" "delta (ruleDexLabel None) = 0"
  "delta (ruleAgeMc None m) = 0" "delta (ruleAgeMc a None) = 0"
  by (simp_all add: delta_def ruleVolToMc_def ruleLpLocked_def ruleTx24_def rulePriceCh24_def
      ruleDexLabel_def ruleAgeMc_def Let_def split: option.split)

lemma delta_finite:
  "delta (ruleVolToMc (Some (Fin x))) = (if 1 \<le> x then 20 else if 0.2 \<le> x then 5 else - 20)"
  "delta (ruleLpLocked (Some (Fin x))) = (if 75 \<le> x then 15 else if x < 25 then - 15 else 0)"
  "delta (ruleTx24 (Some (Fin x))) = (if 1000 \<le> x then 5 else if x < 50 then - 5 else 0)"
  "delta (rulePriceCh24 (Some (Fin x))) = (if 400 < x \<or> x < - 60 then - 10 else 0)"
  "delta (ruleAgeMc (Some (Fin x)) (Some (Fin y))) = (if 50 < x \<and> y < 20000 then - 10 else 0)"
  by (simp_all add: delta_def ruleVolToMc_def ruleLpLocked_def ruleTx24_def rulePriceCh24_def
      ruleAgeMc_def Let_def fst_bump js_ge_def js_gt_def)

lemma delta_label:
  "delta (ruleDexLabel (Some l)) = (case l of DexSafe \<Rightarrow> 5 | DexDanger \<Rightarrow> - 10 | _ \<Rightarrow> 0)"
  by (cases l) (simp_all add: delta_def ruleDexLabel_def Let_def fst_bump)

text \<open>The specification's first example: a strong token scores 95.\<close>

lemma scoreRun_strong:
  "scoreRun \<lparr>volToMc = Some (Fin 1.5), lpLockedPct = Some (Fin 80), tx24 = Some (Fin 1200),
      priceCh24 = Some (Fin 5), dexLabel = Some DexSafe, ageMin = None, marketCap = None\<rparr>
   = (95, [''volume/mc strong'', ''LP locked high'', ''tx active'', ''dex risk: safe''])"
proof -
  have 1: "ruleVolToMc (Some (Fin 1.5)) (50, []) = (70, [''volume/mc strong''])"
    by (simp add: ruleVolToMc_def bump_def js_ge_def)
  have 2: "ruleLpLocked (Some (Fin 80)) (70, [''volume/mc strong''])
      = (85, [''volume/mc strong'', ''LP locked high''])"
    by (simp add: ruleLpLocked_def bump_def js_ge_def)
  have 3: "ruleTx24 (Some (Fin 1200)) (85, [''volume/mc strong'', ''LP locked high''])
      = (90, [''volume/mc strong'', ''LP locked high'', ''tx active''])"
    by (simp add: ruleTx24_def bump_def js_ge_def)
  have 4: "rulePriceCh24 (Some (Fin 5)) (90, [''volume/mc strong'', ''LP locked high'', ''tx active''])
      = (90, [''volume/mc strong'', ''LP locked high'', ''tx active''])"
    by (simp add: rulePriceCh24_def bump_def js_gt_def)
  have 5: "ruleDexLabel (Some DexSafe) (90, [''volume/mc strong'', ''LP locked high'', ''tx active''])
      = (95, [''volume/mc strong'', ''LP locked high'', ''tx active'', ''dex risk: safe''])"
    by (simp add: ruleDexLabel_def bump_def)
  have 6: "ruleAgeMc None None
        (95, [''volume/mc strong'', ''LP locked high'', ''tx active'', ''dex risk: safe''])
      = (95, [''volume/mc strong'', ''LP locked high'', ''tx active'', ''dex risk: safe''])"
    by (simp add: ruleAgeMc_def)
  show ?thesis
    by (simp only: scoreRun_def HealthParams.simps 1 2 3 4 5 6)
qed

text \<open>Each block adds what the specification documents for it; for the transaction
  count, the price change and the compound rule this needs the input not to be infinite
  (see \<open>documented_bands_infinite\<close> and the counterexample below).\<close>

lemma delta_docVolToMc: "delta (ruleVolToMc v) = docVolToMc v"
proof (cases v)
  case None
  then show ?thesis by (simp add: delta_def ruleVolToMc_def docVolToMc_def)
next
  case (Some x)
  then show ?thesis
    by (cases x) (simp_all add: delta_def ruleVolToMc_def docVolToMc_def fst_bump js_ge_def)
qed

lemma delta_docLpLocked: "delta (ruleLpLocked v) = docLpLocked v"
  by (simp add: delta_def ruleLpLocked_def docLpLocked_def fst_bump split: option.split)

lemma delta_docTx24:
  "v \<noteq> Some PInf \<Longrightarrow> v \<noteq> Some NInf \<Longrightarrow> delta (ruleTx24 v) = docTx24 v"
proof (cases v)
  case None
  then show ?thesis by (simp add: delta_def ruleTx24_def docTx24_def)
next
  case (Some x)
  assume "v \<noteq> Some PInf" "v \<noteq> Some NInf"
  with Some show ?thesis
    by (cases x) (simp_all add: delta_def ruleTx24_def docTx24_def fst_bump js_ge_def)
qed

lemma delta_docPriceCh24:
  "v \<noteq> Some PInf \<Longrightarrow> v \<noteq> Some NInf \<Longrightarrow> delta (rulePriceCh24 v) = docPriceCh24 v"
proof (cases v)
  case None
  then show ?thesis by (simp add: delta_def rulePriceCh24_def docPriceCh24_def)
next
  case (Some x)
  assume "v \<noteq> Some PInf" "v \<noteq> Some NInf"
  with Some show ?thesis
    by (cases x)
      (simp_all add: delta_def rulePriceCh24_def docPriceCh24_def fst_bump js_gt_def Let_def)
qed

lemma delta_docRiskLabel: "delta (ruleDexLabel l) = docRiskLabel l"
proof (cases l)
  case None
  then show ?thesis by (simp add: delta_def ruleDexLabel_def docRiskLabel_def Let_def)
next
  case (Some d)
  then show ?thesis
    by (cases d) (simp_all add: delta_def ruleDexLabel_def docRiskLabel_def Let_def fst_bump)
qed

lemma delta_docCompound: "a \<noteq> Some PInf \<Longrightarrow> delta (ruleAgeMc a m) = docCompound a m"
proof (cases a)
  case None
  then show ?thesis by (simp add: delta_def ruleAgeMc_def docCompound_def)
next
  case a: (Some x)
  assume ninf: "a \<noteq> Some PInf"
  show ?thesis
  proof (cases m)
    case None
    with a ninf show ?thesis
      by (cases x) (simp_all add: delta_def ruleAgeMc_def docCompound_def)
  next
    case (Some y)
    with a ninf show ?thesis
      by (cases x; cases y)
        (simp_all add: delta_def ruleAgeMc_def docCompound_def fst_bump js_gt_def)
  qed
qed

lemma scoreRun_documented:
  assumes "tx24 p \<noteq> Some PInf" "tx24 p \<noteq> Some NInf"
    and "priceCh24 p \<noteq> Some PInf" "priceCh24 p \<noteq> Some NInf"
    and "ageMin p \<noteq> Some PInf"
  shows "fst (scoreRun p) = documentedScore p"
  unfolding scoreRun_additive documentedScore_def
  by (simp only: delta_docVolToMc delta_docLpLocked delta_docTx24 [OF assms(1,2)]
      delta_docPriceCh24 [OF assms(3,4)] delta_docRiskLabel delta_docCompound [OF assms(5)])

text \<open>
  Claim C1, as the code has it. The verdict is a function of the seven inputs alone
  (equal inputs give equal verdicts). For every input tuple in which \<^verbatim>\<open>tx24\<close> and
  \<^verbatim>\<open>priceCh24\<close> are not infinite and \<^verbatim>\<open>ageMin\<close> is not \<^verbatim>\<open>+Infinity\<close>, the score
  the function accumulates is the documented additive score (baseline 50 plus the
  documented adjustments), and the label is SAFE exactly when that score is at least 70,
  UNSAFE exactly when it is at most 40 and RISKY exactly in between.
\<close>

theorem health_label_thresholds:
  assumes "tx24 p \<noteq> Some PInf" "tx24 p \<noteq> Some NInf"
    and "priceCh24 p \<noteq> Some PInf" "priceCh24 p \<noteq> Some NInf"
    and "ageMin p \<noteq> Some PInf"
  shows "(label (computeHealthVerdict p) = SAFE \<longleftrightarrow> 70 \<le> documentedScore p)
   \<and> (label (computeHealthVerdict p) = UNSAFE \<longleftrightarrow> documentedScore p \<le> 40)
   \<and> (label (computeHealthVerdict p) = RISKY \<longleftrightarrow> 40 < documentedScore p \<and> documentedScore p < 70)
   \<and> fst (scoreRun p) = documentedScore p
   \<and> (p = q \<longrightarrow> computeHealthVerdict p = computeHealthVerdict q)"
proof -
  have score: "fst (scoreRun p) = documentedScore p"
    using assms by (rule scoreRun_documented)
  have lab: "label (computeHealthVerdict p) = labelOf (documentedScore p)"
    by (simp add: computeHealthVerdict_def Let_def score)
  show ?thesis
    unfolding lab by (simp add: labelOf_def score)
qed

lemma documentedScore_strong:
  "documentedScore \<lparr>volToMc = Some (Fin 1.5), lpLockedPct = Some (Fin 80),
      tx24 = Some (Fin 1200), priceCh24 = Some (Fin 5), dexLabel = Some DexSafe,
      ageMin = None, marketCap = None\<rparr> = 95"
  by (simp add: documentedScore_def docVolToMc_def docLpLocked_def docTx24_def
      docPriceCh24_def docRiskLabel_def docCompound_def js_ge_def js_gt_def)

theorem health_label_thresholds_witness:
  "label (computeHealthVerdict \<lparr>volToMc = Some (Fin 1.5), lpLockedPct = Some (Fin 80),
      tx24 = Some (Fin 1200), priceCh24 = Some (Fin 5), dexLabel = Some DexSafe,
      ageMin = None, marketCap = None\<rparr>) = SAFE
   \<and> fst (scoreRun \<lparr>volToMc = Some (Fin 1.5), lpLockedPct = Some (Fin 80),
      tx24 = Some (Fin 1200), priceCh24 = Some (Fin 5), dexLabel = Some DexSafe,
      ageMin = None, marketCap = None\<rparr>) = 95"
proof -
  let ?p = "\<lparr>volToMc = Some (Fin 1.5), lpLockedPct = Some (Fin 80),
      tx24 = Some (Fin 1200), priceCh24 = Some (Fin 5), dexLabel = Some DexSafe,
      ageMin = None, marketCap = None\<rparr>"
  have h: "tx24 ?p \<noteq> Some PInf" "tx24 ?p \<noteq> Some NInf"
    "priceCh24 ?p \<noteq> Some PInf" "priceCh24 ?p \<noteq> Some NInf" "ageMin ?p \<noteq> Some PInf"
    by simp_all
  note t = health_label_thresholds [OF h, of ?p]
  have "70 \<le> documentedScore ?p"
    by (simp only: documentedScore_strong)
  then have 1: "label (computeHealthVerdict ?p) = SAFE"
    by (rule iffD2 [OF t [THEN conjunct1]])
  have 2: "fst (scoreRun ?p) = 95"
    using t [THEN conjunct2, THEN conjunct2, THEN conjunct2, THEN conjunct1]
    by (simp only: documentedScore_strong)
  from 1 2 show ?thesis by (rule conjI)
qed

text \<open>
  Claim C1 as stated fails: with \<^verbatim>\<open>ageMin = Infinity\<close>, \<^verbatim>\<open>marketCap = 10000\<close> and
  every other input absent, the documented score is 50 (the compound rule is documented
  to be skipped when an input is not finite), which is RISKY, and the function returns
  UNSAFE.
\<close>

theorem health_label_counterexample:
  "documentedScore \<lparr>volToMc = None, lpLockedPct = None, tx24 = None, priceCh24 = None,
      dexLabel = None, ageMin = Some PInf, marketCap = Some (Fin 10000)\<rparr> = 50
   \<and> label (computeHealthVerdict \<lparr>volToMc = None, lpLockedPct = None, tx24 = None,
      priceCh24 = None, dexLabel = None, ageMin = Some PInf,
      marketCap = Some (Fin 10000)\<rparr>) = UNSAFE"
proof -
  have run: "scoreRun \<lparr>volToMc = None, lpLockedPct = None, tx24 = None, priceCh24 = None,
      dexLabel = None, ageMin = Some PInf, marketCap = Some (Fin 10000)\<rparr>
      = (40, [''age>50m & mc<20k''])"
    by (simp add: scoreRun_def ruleVolToMc_def ruleLpLocked_def ruleTx24_def rulePriceCh24_def
        ruleDexLabel_def ruleAgeMc_def bump_def js_gt_def Let_def)
  have doc: "documentedScore \<lparr>volToMc = None, lpLockedPct = None, tx24 = None,
      priceCh24 = None, dexLabel = None, ageMin = Some PInf,
      marketCap = Some (Fin 10000)\<rparr> = 50"
    by (simp add: documentedScore_def docVolToMc_def docLpLocked_def docTx24_def
        docPriceCh24_def docRiskLabel_def docCompound_def)
  have lab: "labelOf 40 = UNSAFE"
    by (simp add: labelOf_def)
  show ?thesis
    by (simp only: doc computeHealthVerdict_def Let_def run fst_conv snd_conv lab
        HealthVerdict.simps simp_thms)
qed

text \<open>On an infinite transaction count or price change the function adds nothing (its
  guard asks \<^verbatim>\<open>isFinite\<close>), where the documented band names the comparison only.\<close>

lemma documented_bands_infinite:
  "delta (ruleTx24 (Some PInf)) = 0" "docTx24 (Some PInf) = 5"
  "delta (ruleTx24 (Some NInf)) = 0" "docTx24 (Some NInf) = - 5"
  "delta (rulePriceCh24 (Some PInf)) = 0" "docPriceCh24 (Some PInf) = - 10"
  "delta (rulePriceCh24 (Some NInf)) = 0" "docPriceCh24 (Some NInf) = - 10"
  by (simp_all add: delta_def ruleTx24_def rulePriceCh24_def docTx24_def docPriceCh24_def
      js_ge_def js_gt_def)

text \<open>
  Claim C2, as the code has it. The compound rule takes 10 points and appends the reason
  \<^verbatim>\<open>age>50m & mc<20k\<close> exactly when \<^verbatim>\<open>ageMin\<close> is a number above 50 (an infinite
  age counts: the guard on \<^verbatim>\<open>ageMin\<close> has no \<^verbatim>\<open>isFinite\<close>) and \<^verbatim>\<open>marketCap\<close>
  is a finite number below 20000; in every other case it leaves score and reasons as
  they are.
\<close>

theorem compound_rule_fires:
  "ruleAgeMc a m st =
     (if (a = Some PInf \<or> (\<exists>x. a = Some (Fin x) \<and> 50 < x)) \<and> (\<exists>y. m = Some (Fin y) \<and> y < 20000)
      then (fst st - 10, snd st @ [''age>50m & mc<20k''])
      else st)"
proof (cases a)
  case None
  then show ?thesis by (simp add: ruleAgeMc_def)
next
  case (Some x)
  show ?thesis
  proof (cases m)
    case None
    then show ?thesis by (simp add: ruleAgeMc_def split: option.split)
  next
    case (Some y)
    with \<open>a = Some x\<close> show ?thesis
      by (cases x; cases y) (simp_all add: ruleAgeMc_def bump_def js_gt_def)
  qed
qed

theorem compound_rule_fires_witness:
  "ruleAgeMc (Some (Fin 60)) (Some (Fin 10000)) (50, []) = (40, [''age>50m & mc<20k''])
   \<and> ruleAgeMc (Some (Fin 60)) None (50, []) = (50, [])
   \<and> ruleAgeMc (Some (Fin 60)) (Some PInf) (50, []) = (50, [])
   \<and> ruleAgeMc (Some NaN) (Some (Fin 10000)) (50, []) = (50, [])"
  using compound_rule_fires [of "Some (Fin 60)" "Some (Fin 10000)" "(50, [])"]
    compound_rule_fires [of "Some (Fin 60)" None "(50, [])"]
    compound_rule_fires [of "Some (Fin 60)" "Some PInf" "(50, [])"]
    compound_rule_fires [of "Some NaN" "Some (Fin 10000)" "(50, [])"]
  by simp

text \<open>
  Claim C2 as stated fails: with an infinite \<^verbatim>\<open>ageMin\<close>, which is not finite, and a
  market cap of 10000 the rule is not skipped.
\<close>

theorem compound_rule_counterexample:
  "\<not> isFinite PInf
   \<and> ruleAgeMc (Some PInf) (Some (Fin 10000)) (50, []) = (40, [''age>50m & mc<20k''])"
  by (simp add: ruleAgeMc_def bump_def js_gt_def)

text \<open>
  Claim C3. On \<^verbatim>\<open>volToMc=0.1, lpLockedPct=10, tx24=10, priceCh24=500,
  riskLabel='danger', ageMin=60, marketCap=10000\<close> the score is
  50 - 20 - 15 - 5 - 10 - 10 - 10 = -20 and the label is UNSAFE.
\<close>

theorem health_example_unsafe:
  "scoreRun \<lparr>volToMc = Some (Fin 0.1), lpLockedPct = Some (Fin 10), tx24 = Some (Fin 10),
      priceCh24 = Some (Fin 500), dexLabel = Some DexDanger, ageMin = Some (Fin 60),
      marketCap = Some (Fin 10000)\<rparr>
   = (- 20, [''volume/mc weak'', ''LP lock low'', ''tx low'', ''extreme pump'',
        ''dex risk: danger'', ''age>50m & mc<20k''])
   \<and> computeHealthVerdict \<lparr>volToMc = Some (Fin 0.1), lpLockedPct = Some (Fin 10),
      tx24 = Some (Fin 10), priceCh24 = Some (Fin 500), dexLabel = Some DexDanger,
      ageMin = Some (Fin 60), marketCap = Some (Fin 10000)\<rparr>
   = \<lparr>label = UNSAFE, reasons = [''volume/mc weak'', ''LP lock low'', ''tx low'',
        ''extreme pump'', ''dex risk: danger'', ''age>50m & mc<20k'']\<rparr>"
proof -
  have 1: "ruleVolToMc (Some (Fin 0.1)) (50, []) = (30, [''volume/mc weak''])"
    by (simp add: ruleVolToMc_def bump_def js_ge_def)
  have 2: "ruleLpLocked (Some (Fin 10)) (30, [''volume/mc weak''])
      = (15, [''volume/mc weak'', ''LP lock low''])"
    by (simp add: ruleLpLocked_def bump_def js_ge_def)
  have 3: "ruleTx24 (Some (Fin 10)) (15, [''volume/mc weak'', ''LP lock low''])
      = (10, [''volume/mc weak'', ''LP lock low'', ''tx low''])"
    by (simp add: ruleTx24_def bump_def js_ge_def)
  have 4: "rulePriceCh24 (Some (Fin 500)) (10, [''volume/mc weak'', ''LP lock low'', ''tx low''])
      = (0, [''volume/mc weak'', ''LP lock low'', ''tx low'', ''extreme pump''])"
    by (simp add: rulePriceCh24_def bump_def js_gt_def)
  have 5: "ruleDexLabel (Some DexDanger)
        (0, [''volume/mc weak'', ''LP lock low'', ''tx low'', ''extreme pump''])
      = (- 10, [''volume/mc weak'', ''LP lock low'', ''tx low'', ''extreme pump'',
          ''dex risk: danger''])"
    by (simp add: ruleDexLabel_def bump_def)
  have 6: "ruleAgeMc (Some (Fin 60)) (Some (Fin 10000))
        (- 10, [''volume/mc weak'', ''LP lock low'', ''tx low'', ''extreme pump'',
          ''dex risk: danger''])
      = (- 20, [''volume/mc weak'', ''LP lock low'', ''tx low'', ''extreme pump'',
          ''dex risk: danger'', ''age>50m & mc<20k''])"
    by (simp add: ruleAgeMc_def bump_def js_gt_def)
  have run: "scoreRun \<lparr>volToMc = Some (Fin 0.1), lpLockedPct = Some (Fin 10), tx24 = Some (Fin 10),
      priceCh24 = Some (Fin 500), dexLabel = Some DexDanger, ageMin = Some (Fin 60),
      marketCap = Some (Fin 10000)\<rparr>
   = (- 20, [''volume/mc weak'', ''LP lock low'', ''tx low'', ''extreme pump'',
        ''dex risk: danger'', ''age>50m & mc<20k''])"
    by (simp only: scoreRun_def HealthParams.simps 1 2 3 4 5 6)
  have lab: "labelOf (- 20) = UNSAFE"
    by (simp add: labelOf_def)
  show ?thesis
    by (simp only: computeHealthVerdict_def Let_def run fst_conv snd_conv lab simp_thms)
qed


section \<open>Properties of the supply\<close>

text \<open>
  Claim C4, as the code has it. While the report or its token is absent the supply is
  999,999,999. With a token, the supply is \<open>raw / 10 ^ decimals\<close> (the decimals taken
  as 0 when absent) when the raw supply is a finite number and that quotient is finite
  and positive, and 1,000,000,000 whenever the computed value is missing or not a finite
  positive number. The result is a finite positive number in every case, never
  \<^verbatim>\<open>null\<close>.
\<close>

theorem supply_cases:
  "(tokenOf report = None \<longrightarrow> supplyMemo report = Fin 999999999)
   \<and> (tokenOf report = Some t \<and> tok_supply t = Some raw \<and> isFinite raw
        \<and> js_div raw (pow10 (decimalsOf t)) = Fin v \<and> 0 < v
        \<longrightarrow> supplyMemo report = Fin v)
   \<and> (tokenOf report = Some t \<and> \<not> (\<exists>v. 0 < v \<and> computedSupply t = Some (Fin v))
        \<longrightarrow> supplyMemo report = Fin 1000000000)
   \<and> (\<exists>v. 0 < v \<and> supplyMemo report = Fin v)"
proof (intro conjI impI)
  assume "tokenOf report = None"
  then show "supplyMemo report = Fin 999999999"
    by (simp add: supplyMemo_def)
next
  assume a: "tokenOf report = Some t \<and> tok_supply t = Some raw \<and> isFinite raw
        \<and> js_div raw (pow10 (decimalsOf t)) = Fin v \<and> 0 < v"
  then have "computedSupply t = Some (Fin v)"
    by (simp add: computedSupply_def)
  with a show "supplyMemo report = Fin v"
    by (simp add: supplyMemo_def js_gt_def)
next
  assume a: "tokenOf report = Some t \<and> \<not> (\<exists>v. 0 < v \<and> computedSupply t = Some (Fin v))"
  show "supplyMemo report = Fin 1000000000"
  proof (cases "computedSupply t")
    case None
    with a show ?thesis by (simp add: supplyMemo_def)
  next
    case (Some c)
    with a show ?thesis by (cases c) (auto simp add: supplyMemo_def js_gt_def)
  qed
next
  show "\<exists>v. 0 < v \<and> supplyMemo report = Fin v"
  proof (cases "tokenOf report")
    case None
    then show ?thesis by (simp add: supplyMemo_def)
  next
    case (Some t)
    show ?thesis
    proof (cases "computedSupply t")
      case None
      with Some show ?thesis by (simp add: supplyMemo_def)
    next
      case c: (Some c)
      with Some show ?thesis by (cases c) (auto simp add: supplyMemo_def js_gt_def)
    qed
  qed
qed

theorem supply_cases_witness:
  "supplyMemo (Some \<lparr>token = Some \<lparr>tok_supply = Some (Fin 1000000000000), tok_decimals = Some (Fin 6)\<rparr>\<rparr>)
     = Fin 1000000
   \<and> supplyMemo (Some \<lparr>token = Some \<lparr>tok_supply = None, tok_decimals = Some (Fin 6)\<rparr>\<rparr>)
     = Fin 1000000000
   \<and> supplyMemo (Some \<lparr>token = None\<rparr>) = Fin 999999999"
  using supply_cases [of "Some \<lparr>token = Some \<lparr>tok_supply = Some (Fin 1000000000000), tok_decimals = Some (Fin 6)\<rparr>\<rparr>"
      "\<lparr>tok_supply = Some (Fin 1000000000000), tok_decimals = Some (Fin 6)\<rparr>" "Fin 1000000000000" 1000000]
    supply_cases [of "Some \<lparr>token = Some \<lparr>tok_supply = None, tok_decimals = Some (Fin 6)\<rparr>\<rparr>"
      "\<lparr>tok_supply = None, tok_decimals = Some (Fin 6)\<rparr>"]
    supply_cases [of "Some \<lparr>token = None\<rparr>"]
  by (simp add: tokenOf_def decimalsOf_def computedSupply_def)

text \<open>
  Claim C4 as stated fails: before the report is loaded the source supply is missing, and
  the value substituted is 999,999,999, not 1,000,000,000.
\<close>

theorem supply_counterexample:
  "tokenOf None = None \<and> supplyMemo None = Fin 999999999 \<and> supplyMemo None \<noteq> Fin 1000000000"
  by (simp add: supplyMemo_def tokenOf_def)


section \<open>Properties of the sticky price\<close>

text \<open>The effect is declared to depend on \<^verbatim>\<open>priceUsd\<close> and is skipped while that value
  does not change; running it again on the same value leaves the state as it is, which
  is why the model can run it at every tick.\<close>

lemma priceEffect_idem: "priceEffect (priceEffect st p) p = priceEffect st p"
  by (simp add: priceEffect_def)

lemma priceTick_invalid: "\<not> finiteNumber (priceUsd r) \<Longrightarrow> priceTick st r = st"
  by (simp add: priceTick_def priceEffect_def)

lemma priceTick_valid: "finiteNumber (priceUsd r) \<Longrightarrow> priceTick st r = priceUsd r"
  by (simp add: priceTick_def priceEffect_def)

lemma priceTick_keeps: "st \<noteq> None \<Longrightarrow> priceTick st r \<noteq> None"
  by (auto simp add: priceTick_def priceEffect_def finiteNumber_def split: option.splits)

lemma foldl_priceTick_keeps: "st \<noteq> None \<Longrightarrow> foldl priceTick st rs \<noteq> None"
  by (induction rs arbitrary: st) (simp_all add: priceTick_keeps del: not_None_eq)

lemma foldl_priceTick_invalid:
  "\<forall>r\<in>set rs. \<not> finiteNumber (priceUsd r) \<Longrightarrow> foldl priceTick st rs = st"
  by (induction rs arbitrary: st) (simp_all add: priceTick_invalid)

lemma shownDuring_invalid:
  "\<not> finiteNumber (priceUsd r) \<Longrightarrow> shownDuring (Some v) r = [Some v, Some v]"
  by (simp add: shownDuring_def priceShown_def priceTick_invalid)

lemma shownOver_invalid:
  "\<forall>r\<in>set rs. \<not> finiteNumber (priceUsd r) \<Longrightarrow>
   shownOver (Some v) rs = replicate (2 * length rs) (Some v)"
  by (induction rs) (simp_all add: shownDuring_invalid priceTick_invalid)

text \<open>
  Claim C5. Once a tick has brought a finite price \<open>P\<close>, the state holds \<open>P\<close>, and over
  any run of later ticks whose live price is \<^verbatim>\<open>null\<close> (or any other value that is not
  a finite number) the state still holds \<open>P\<close> and both renders of every such tick show
  \<open>P\<close>, never the placeholder. A state that holds a value is never reset to
  \<^verbatim>\<open>null\<close>, whatever the ticks. The witness is the two-tick run \<^verbatim>\<open>[5.0, null]\<close>.
\<close>

theorem sticky_price:
  assumes valid: "priceUsd t = Some (Fin P)"
    and later: "\<forall>r\<in>set later. \<not> finiteNumber (priceUsd r)"
  shows "foldl priceTick st (pre @ [t]) = Some (Fin P)
    \<and> foldl priceTick st (pre @ t # later) = Some (Fin P)
    \<and> shownOver (foldl priceTick st (pre @ [t])) later = replicate (2 * length later) (Some (Fin P))
    \<and> (\<forall>st' rs. st' \<noteq> None \<longrightarrow> foldl priceTick st' rs \<noteq> None)"
proof -
  have fin: "finiteNumber (priceUsd t)"
    using valid by (simp add: finiteNumber_def)
  have 1: "foldl priceTick st (pre @ [t]) = Some (Fin P)"
    using fin valid by (simp add: priceTick_valid)
  have "foldl priceTick st (pre @ t # later) = foldl priceTick (foldl priceTick st (pre @ [t])) later"
    by simp
  also have "\<dots> = Some (Fin P)"
    unfolding 1 using later by (rule foldl_priceTick_invalid)
  finally have 2: "foldl priceTick st (pre @ t # later) = Some (Fin P)" .
  have 3: "shownOver (foldl priceTick st (pre @ [t])) later = replicate (2 * length later) (Some (Fin P))"
    unfolding 1 using later by (rule shownOver_invalid)
  show ?thesis
    using 1 2 3 by (simp add: foldl_priceTick_keeps)
qed

lemma priceUsd_five: "priceUsd (Some \<lparr>resp_price = Some (Fin 5), isFallback = False\<rparr>) = Some (Fin 5)"
  by (simp add: priceUsd_def)

lemma priceUsd_null: "priceUsd (Some \<lparr>resp_price = None, isFallback = False\<rparr>) = None"
  by (simp add: priceUsd_def)

theorem sticky_price_witness:
  "shownOver None [Some \<lparr>resp_price = Some (Fin 5), isFallback = False\<rparr>,
                   Some \<lparr>resp_price = None, isFallback = False\<rparr>]
     = [Some (Fin 5), Some (Fin 5), Some (Fin 5), Some (Fin 5)]
   \<and> foldl priceTick None [Some \<lparr>resp_price = Some (Fin 5), isFallback = False\<rparr>,
                   Some \<lparr>resp_price = None, isFallback = False\<rparr>] = Some (Fin 5)"
proof -
  let ?five = "Some \<lparr>resp_price = Some (Fin 5), isFallback = False\<rparr>"
  let ?null = "Some \<lparr>resp_price = None, isFallback = False\<rparr>"
  have later: "\<forall>r\<in>set [?null]. \<not> finiteNumber (priceUsd r)"
    by (simp add: priceUsd_null finiteNumber_def)
  note s = sticky_price [OF priceUsd_five later, of None "[]"]
  have tick: "priceTick None ?five = Some (Fin 5)"
    using s [THEN conjunct1] by simp
  have final: "foldl priceTick None [?five, ?null] = Some (Fin 5)"
    using s [THEN conjunct2, THEN conjunct1] by (simp only: append_Nil)
  have shown2: "shownOver (Some (Fin 5)) [?null] = [Some (Fin 5), Some (Fin 5)]"
    using s [THEN conjunct2, THEN conjunct2, THEN conjunct1]
    by (simp only: append_Nil foldl.simps tick) (simp add: numeral_2_eq_2)
  have shown1: "shownDuring None ?five = [Some (Fin 5), Some (Fin 5)]"
    by (simp add: shownDuring_def priceShown_def tick priceUsd_five)
  have "shownOver None [?five, ?null] = shownDuring None ?five @ shownOver (Some (Fin 5)) [?null]"
    by (simp only: shownOver.simps tick)
  then show ?thesis
    by (simp only: shown1 shown2 final append.simps simp_thms)
qed


section \<open>Properties of the ledger aggregates\<close>

lemma js_add_zero: "js_add x (Fin 0) = x"
  by (cases x) simp_all

lemma foldl_side_filter:
  "foldl (\<lambda>a h. js_add a (if h_side h = s then f h else Fin 0)) a0 hist
   = foldl (\<lambda>a h. js_add a (f h)) a0 (filter (\<lambda>h. h_side h = s) hist)"
  by (induction hist arbitrary: a0) (simp_all add: js_add_zero)

lemma tfStep_all: "start \<le> h_ts h \<Longrightarrow> tfStep start acc h =
   \<lparr>acc_buys = js_add (acc_buys acc) (if h_side h = Buy then num_or0 (h_value h) else Fin 0),
    acc_sells = js_add (acc_sells acc) (if h_side h = Sell then num_or0 (h_value h) else Fin 0),
    acc_fees = js_add (acc_fees acc) (optnum_or0 (h_fee h))\<rparr>"
  by (simp add: tfStep_def)

lemma foldl_tfStep_all:
  "\<forall>h\<in>set hist. start \<le> h_ts h \<Longrightarrow>
   foldl (tfStep start) acc hist =
   \<lparr>acc_buys = foldl (\<lambda>a h. js_add a (if h_side h = Buy then num_or0 (h_value h) else Fin 0)) (acc_buys acc) hist,
    acc_sells = foldl (\<lambda>a h. js_add a (if h_side h = Sell then num_or0 (h_value h) else Fin 0)) (acc_sells acc) hist,
    acc_fees = foldl (\<lambda>a h. js_add a (optnum_or0 (h_fee h))) (acc_fees acc) hist\<rparr>"
proof (induction hist arbitrary: acc)
  case Nil
  then show ?case by simp
next
  case (Cons h hist)
  then show ?case by (simp add: tfStep_all)
qed

text \<open>
  Claim C7, as the code has it. The window of the timeframe \<^verbatim>\<open>all\<close> starts at 0 and
  keeps the entries with \<^verbatim>\<open>h.ts >= 0\<close>: for every history whose timestamps are all
  non-negative, its pnl is the realized PnL of the whole history,
  \<open>sum(sell.value) - sum(buy.value) - sum(fee)\<close>.
\<close>

theorem timeframe_all_equals_realized:
  assumes "\<forall>h\<in>set (historyOf data). 0 \<le> h_ts h"
  shows "tf_pnl (timeframeStats now TfAll data) = realizedPnL data"
proof -
  have "foldl (tfStep 0) \<lparr>acc_buys = Fin 0, acc_sells = Fin 0, acc_fees = Fin 0\<rparr> (historyOf data) =
    \<lparr>acc_buys = sumBy (\<lambda>h. num_or0 (h_value h)) (filter (\<lambda>h. h_side h = Buy) (historyOf data)),
     acc_sells = sumBy (\<lambda>h. num_or0 (h_value h)) (filter (\<lambda>h. h_side h = Sell) (historyOf data)),
     acc_fees = sumBy (\<lambda>h. optnum_or0 (h_fee h)) (historyOf data)\<rparr>"
    using assms by (simp add: foldl_tfStep_all foldl_side_filter sumBy_def)
  then show ?thesis
    by (simp add: timeframeStats_def timeframeAgg_def windowStart_def realizedPnL_def
        ledgerBuyCost_def ledgerSellProceeds_def ledgerTotalFees_def Let_def)
qed


lemma realizedPnL_example: "realizedPnL (Some (exState [exBuy, exSell])) = Fin 10"
  by (simp add: realizedPnL_def ledgerBuyCost_def ledgerSellProceeds_def ledgerTotalFees_def
      historyOf_def exState_def sumBy_def exBuy_def exSell_def num_or0_def optnum_or0_def
      js_sub_def)

theorem timeframe_all_equals_realized_witness:
  "tf_pnl (timeframeStats 1700000000000 TfAll (Some (exState [exBuy, exSell]))) = Fin 10"
proof -
  have "\<forall>h\<in>set (historyOf (Some (exState [exBuy, exSell]))). 0 \<le> h_ts h"
    by (simp add: historyOf_def exState_def exBuy_def exSell_def)
  then show ?thesis
    by (simp only: timeframe_all_equals_realized realizedPnL_example)
qed

text \<open>
  Claim C7 as stated fails: an entry with a negative timestamp is outside the window that
  starts at 0, and inside the full history.
\<close>

theorem timeframe_all_counterexample:
  "tf_pnl (timeframeStats 1700000000000 TfAll (Some (exState [exSell\<lparr>h_ts := - 1\<rparr>]))) = Fin 0
   \<and> realizedPnL (Some (exState [exSell\<lparr>h_ts := - 1\<rparr>])) = Fin 30"
  by (simp add: timeframeStats_def timeframeAgg_def windowStart_def tfStep_def Let_def
      realizedPnL_def ledgerBuyCost_def ledgerSellProceeds_def ledgerTotalFees_def
      historyOf_def exState_def sumBy_def exSell_def num_or0_def optnum_or0_def js_sub_def)


section \<open>Properties of the trade panel\<close>

lemma truthy_iff: "truthy x \<longleftrightarrow> x \<noteq> NaN \<and> x \<noteq> Fin 0"
  by (cases x) simp_all

lemma js_gt_zero_truthy: "js_gt x (Fin 0) \<Longrightarrow> truthy x"
  by (cases x) (simp_all add: js_gt_def)

text \<open>
  Claim C8, as the code has it. The position PnL is 0 whenever the current price is
  \<^verbatim>\<open>null\<close>, \<^verbatim>\<open>0\<close> or \<^verbatim>\<open>NaN\<close>, or the quantity held is \<^verbatim>\<open>0\<close> or \<^verbatim>\<open>NaN\<close> (in
  particular when there is no position); in every other case it is
  \<open>(currentPrice - averageEntryPrice) * quantityHeld\<close>, which may be 0 as well.
\<close>

theorem panelPnl_cases:
  "(cp = None \<or> cp = Some (Fin 0) \<or> cp = Some NaN \<or> held = Fin 0 \<or> held = NaN
      \<longrightarrow> panelPnl cp avg held = Fin 0)
   \<and> (cp = Some c \<and> c \<noteq> Fin 0 \<and> c \<noteq> NaN \<and> held \<noteq> Fin 0 \<and> held \<noteq> NaN
      \<longrightarrow> panelPnl cp avg held = js_mul (js_sub c avg) held)
   \<and> (posOf data m = None \<longrightarrow> panelPnl cp (avgPrice data m) (qtyHeld data m) = Fin 0)"
  by (auto simp add: panelPnl_def truthy_iff qtyHeld_def split: option.splits)

theorem panelPnl_cases_witness:
  "panelPnl (Some (Fin 3)) (Fin 2) (Fin 10) = Fin 10
   \<and> panelPnl None (Fin 2) (Fin 10) = Fin 0
   \<and> panelPnl (Some (Fin 3)) (Fin 2) (Fin 0) = Fin 0"
  using panelPnl_cases [of "Some (Fin 3)" "Fin 10" "Fin 2" "Fin 3"]
    panelPnl_cases [of None "Fin 10" "Fin 2"]
    panelPnl_cases [of "Some (Fin 3)" "Fin 0" "Fin 2"]
  by (simp add: js_sub_def)

text \<open>
  Claim C8 as stated fails. With a known price of 0, an entry price of 2 and 10 units held
  the result is 0, not \<open>(0 - 2) * 10 = -20\<close>; and with a known price equal to the entry
  price the result is 0 although the quantity is not 0 and the price is not \<^verbatim>\<open>null\<close>.
\<close>

theorem panelPnl_counterexample:
  "panelPnl (Some (Fin 0)) (Fin 2) (Fin 10) = Fin 0
   \<and> js_mul (js_sub (Fin 0) (Fin 2)) (Fin 10) = Fin (- 20)
   \<and> panelPnl (Some (Fin 2)) (Fin 2) (Fin 10) = Fin 0"
  by (simp add: panelPnl_def js_sub_def)

text \<open>
  Claim C10. Buying is enabled exactly when the mint is not empty, the effective price and
  the effective quantity are above 0 and price times quantity is at most the balance. The
  fee of 0.35, added to the grand total whenever the cost is positive, is not part of
  that test: with price 1, 10 USD typed and a balance of 10, buying is enabled although
  the grand total 10.35 exceeds the balance.
\<close>

theorem canBuy_iff:
  "(canBuy m currentPrice usd data \<longleftrightarrow>
      m \<noteq> [] \<and> js_gt (effPrice currentPrice) (Fin 0)
      \<and> js_gt (effectiveQty usd (effPrice currentPrice)) (Fin 0)
      \<and> js_le (js_mul (effPrice currentPrice) (effectiveQty usd (effPrice currentPrice)))
           (balanceOf data))
   \<and> (js_gt tc (Fin 0) \<longrightarrow> grandTotal tc = js_add tc (Fin 0.35))
   \<and> canBuy (map of_char ''MintA'') (Some (Fin 1)) (Fin 10) (Some (exState []))
   \<and> js_gt (grandTotal (totalCost (effPrice (Some (Fin 1)))
              (effectiveQty (Fin 10) (effPrice (Some (Fin 1))))))
        (balanceOf (Some (exState [])))"
proof (intro conjI)
  show "canBuy m currentPrice usd data \<longleftrightarrow>
      m \<noteq> [] \<and> js_gt (effPrice currentPrice) (Fin 0)
      \<and> js_gt (effectiveQty usd (effPrice currentPrice)) (Fin 0)
      \<and> js_le (js_mul (effPrice currentPrice) (effectiveQty usd (effPrice currentPrice)))
           (balanceOf data)"
    by (auto simp add: canBuy_def totalCost_def Let_def dest: js_gt_zero_truthy)
  show "js_gt tc (Fin 0) \<longrightarrow> grandTotal tc = js_add tc (Fin 0.35)"
    by (simp add: grandTotal_def TX_FEE_def)
  have q: "effectiveQty (Fin 10) (Fin 1) = Fin 10"
    by (simp add: effectiveQty_def num_or0_def)
  have p: "effPrice (Some (Fin 1)) = Fin 1"
    by (simp add: effPrice_def)
  have b: "balanceOf (Some (exState [])) = Fin 10"
    by (simp add: balanceOf_def exState_def)
  show "canBuy (map of_char ''MintA'') (Some (Fin 1)) (Fin 10) (Some (exState []))"
    by (simp add: canBuy_def Let_def p q b totalCost_def js_gt_def)
  show "js_gt (grandTotal (totalCost (effPrice (Some (Fin 1)))
              (effectiveQty (Fin 10) (effPrice (Some (Fin 1))))))
        (balanceOf (Some (exState [])))"
    by (simp add: p q b totalCost_def grandTotal_def TX_FEE_def js_gt_def)
qed

theorem canBuy_iff_witness:
  "canBuy (map of_char ''MintA'') (Some (Fin 2)) (Fin 10) (Some (exState []))
   \<and> \<not> canBuy (map of_char ''MintA'') (Some (Fin 2)) (Fin 11) (Some (exState []))
   \<and> \<not> canBuy [] (Some (Fin 2)) (Fin 10) (Some (exState []))
   \<and> grandTotal (Fin 10) = Fin 10.35"
  using canBuy_iff [of "map of_char ''MintA''" "Some (Fin 2)" "Fin 10" "Some (exState [])" "Fin 10"]
    canBuy_iff [of "map of_char ''MintA''" "Some (Fin 2)" "Fin 11" "Some (exState [])"]
    canBuy_iff [of "[]" "Some (Fin 2)" "Fin 10" "Some (exState [])"]
  by (simp add: effPrice_def effectiveQty_def num_or0_def balanceOf_def exState_def js_gt_def)


section \<open>Properties of the grouped activity\<close>

lemma addToGroup_buys:
  "buys (addToGroup h g) = (if h_side h = Buy then buys g @ [h] else buys g)"
  by (simp add: addToGroup_def Let_def)

lemma addToGroup_sells:
  "sells (addToGroup h g) = (if h_side h = Buy then sells g else sells g @ [h])"
  by (simp add: addToGroup_def Let_def)

lemma addToGroup_mint: "mint (addToGroup h g) = mint g"
  by (simp add: addToGroup_def Let_def)

lemma groupStep_Nil: "groupStep [] h = [(h_mint h, addToGroup h (newGroup h))]"
  by (simp add: groupStep_def)

lemma groupStep_same: "h_mint h = k \<Longrightarrow> groupStep [(k, g)] h = [(k, addToGroup h g)]"
  by (simp add: groupStep_def)

lemma itemOf_mint: "mint (itemOf g) = mint g"
  by (simp add: itemOf_def Let_def Group.defs)

lemma itemOf_lastTs: "lastTs (itemOf g) = lastTs g"
  by (simp add: itemOf_def Let_def Group.defs)

lemma itemOf_pnl:
  "pnl (itemOf g) =
     js_sub (js_sub (sumBy (\<lambda>x. num_or0 (h_value x)) (sells g))
                    (sumBy (\<lambda>x. num_or0 (h_value x)) (buys g)))
            (sumBy (\<lambda>x. optnum_or0 (h_fee x)) (buys g @ sells g))"
  by (simp add: itemOf_def Let_def Group.defs Item.defs)

lemma itemOf_pnlPct:
  "pnlPct (itemOf g) =
     (if js_gt (sumBy (\<lambda>x. num_or0 (h_value x)) (buys g)) (Fin 0)
      then Some (js_mul (js_div (pnl (itemOf g)) (sumBy (\<lambda>x. num_or0 (h_value x)) (buys g))) (Fin 100))
      else None)"
  by (simp add: itemOf_def Let_def Group.defs Item.defs)

lemma itemOf_weighted:
  "buyWeightedPrice (itemOf g) = weightedPrice (buys g)"
  "sellWeightedPrice (itemOf g) = weightedPrice (sells g)"
  by (simp_all add: itemOf_def Let_def Group.defs Item.defs)


lemma summary_of_one_buy_one_sell:
  assumes b: "h_price b = Fin 2" "h_qty b = Fin 10" "h_value b = Fin 20"
      "h_fee b = None \<or> h_fee b = Some (Fin 0)"
    and s: "h_price s = Fin 3" "h_qty s = Fin 10" "h_value s = Fin 30"
      "h_fee s = None \<or> h_fee s = Some (Fin 0)"
    and g: "buys g = [b]" "sells g = [s]"
  shows "pnl (itemOf g) = Fin 10" "pnlPct (itemOf g) = Some (Fin 50)"
    "buyWeightedPrice (itemOf g) = Some (Fin 2)" "sellWeightedPrice (itemOf g) = Some (Fin 3)"
proof -
  have fb: "optnum_or0 (h_fee b) = Fin 0" and fs: "optnum_or0 (h_fee s) = Fin 0"
    using b(4) s(4) by (auto simp add: optnum_or0_def num_or0_def)
  show p: "pnl (itemOf g) = Fin 10"
    by (simp add: itemOf_pnl g sumBy_def b s fb fs num_or0_def js_sub_def)
  show "pnlPct (itemOf g) = Some (Fin 50)"
    by (simp add: itemOf_pnlPct p g sumBy_def b num_or0_def js_gt_def)
  show "buyWeightedPrice (itemOf g) = Some (Fin 2)"
    by (simp add: itemOf_weighted weightedPrice_def g sumBy_def b num_or0_def Let_def)
  show "sellWeightedPrice (itemOf g) = Some (Fin 3)"
    by (simp add: itemOf_weighted weightedPrice_def g sumBy_def s num_or0_def Let_def)
qed

text \<open>
  Claim C6. For a history made of one buy of 10 units at price 2 (value 20) and one sell
  of 10 units at price 3 (value 30) of the same token, in either order and with fees
  absent or 0, the aggregation yields one item, for that token, with realized PnL 10,
  PnL percentage 50, weighted buy price 2 and weighted sell price 3.
\<close>

theorem grouped_one_buy_one_sell:
  assumes b: "h_side b = Buy" "h_price b = Fin 2" "h_qty b = Fin 10" "h_value b = Fin 20"
      "h_fee b = None \<or> h_fee b = Some (Fin 0)"
    and s: "h_side s = Sell" "h_price s = Fin 3" "h_qty s = Fin 10" "h_value s = Fin 30"
      "h_fee s = None \<or> h_fee s = Some (Fin 0)"
    and same: "h_mint s = h_mint b"
    and hist: "historyOf state = [b, s] \<or> historyOf state = [s, b]"
  shows "map (\<lambda>i. (mint i, pnl i, pnlPct i, buyWeightedPrice i, sellWeightedPrice i))
           (groupedActivity state)
         = [(h_mint b, Fin 10, Some (Fin 50), Some (Fin 2), Some (Fin 3))]"
proof -
  obtain g where run: "foldl groupStep [] (historyOf state) = [(h_mint b, g)]"
    and g: "buys g = [b]" "sells g = [s]" "mint g = h_mint b"
  proof (cases "historyOf state = [b, s]")
    case True
    let ?g = "addToGroup s (addToGroup b (newGroup b))"
    have "foldl groupStep [] (historyOf state) = [(h_mint b, ?g)]"
      by (simp add: True groupStep_Nil groupStep_same same)
    moreover have "buys ?g = [b]" "sells ?g = [s]" "mint ?g = h_mint b"
      by (simp_all add: addToGroup_buys addToGroup_sells addToGroup_mint b(1) s(1) newGroup_def)
    ultimately show ?thesis by (rule that)
  next
    case False
    with hist have sb: "historyOf state = [s, b]" by simp
    let ?g = "addToGroup b (addToGroup s (newGroup s))"
    have "foldl groupStep [] (historyOf state) = [(h_mint b, ?g)]"
      by (simp add: sb groupStep_Nil groupStep_same same)
    moreover have "buys ?g = [b]" "sells ?g = [s]" "mint ?g = h_mint b"
      by (simp_all add: addToGroup_buys addToGroup_sells addToGroup_mint b(1) s(1) newGroup_def same)
    ultimately show ?thesis by (rule that)
  qed
  have items: "groupedActivity state = [itemOf g]"
    by (simp add: groupedActivity_def run)
  show ?thesis
    unfolding items
    by (simp add: summary_of_one_buy_one_sell [OF b(2-5) s(2-5) g(1,2)] itemOf_mint g(3))
qed

theorem grouped_one_buy_one_sell_witness:
  "map (\<lambda>i. (mint i, pnl i, pnlPct i, buyWeightedPrice i, sellWeightedPrice i))
       (groupedActivity (Some (exState [exBuy, exSell])))
   = [(map of_char ''MintA'', Fin 10, Some (Fin 50), Some (Fin 2), Some (Fin 3))]"
proof -
  have "map (\<lambda>i. (mint i, pnl i, pnlPct i, buyWeightedPrice i, sellWeightedPrice i))
       (groupedActivity (Some (exState [exBuy, exSell])))
     = [(h_mint exBuy, Fin 10, Some (Fin 50), Some (Fin 2), Some (Fin 3))]"
    by (rule grouped_one_buy_one_sell [of exBuy exSell])
      (simp_all add: exBuy_def exSell_def historyOf_def exState_def)
  then show ?thesis
    by (simp add: exBuy_def)
qed


section \<open>Properties of the mint validation\<close>

lemma base58Class_spec: "base58Class c \<longleftrightarrow> specBase58 c"
  unfolding base58Class_def specBase58_def inRange_def by simp arith

lemma dropWhile_fixed: "xs = [] \<or> \<not> P (hd xs) \<Longrightarrow> dropWhile P xs = xs"
  by (cases xs) auto

lemma trim_no_leading: "trim s = [] \<or> \<not> isWhiteSpace (hd (trim s))"
proof (cases "trim s = []")
  case True
  then show ?thesis by simp
next
  case False
  let ?u = "dropWhile isWhiteSpace s"
  have split: "?u = trim s @ rev (takeWhile isWhiteSpace (rev ?u))"
  proof -
    have "?u = rev (takeWhile isWhiteSpace (rev ?u) @ dropWhile isWhiteSpace (rev ?u))"
      by (simp only: takeWhile_dropWhile_id rev_rev_ident)
    also have "\<dots> = rev (dropWhile isWhiteSpace (rev ?u)) @ rev (takeWhile isWhiteSpace (rev ?u))"
      by (rule rev_append)
    finally show ?thesis by (simp only: trim_def)
  qed
  with False have "hd ?u = hd (trim s)" and "?u \<noteq> []"
    by (metis hd_append2, metis append_is_Nil_conv)
  moreover from \<open>?u \<noteq> []\<close> have "\<not> isWhiteSpace (hd ?u)"
    by (rule hd_dropWhile)
  ultimately show ?thesis by simp
qed

lemma trim_idem: "trim (trim s) = trim s"
proof -
  have 1: "dropWhile isWhiteSpace (trim s) = trim s"
    using trim_no_leading by (rule dropWhile_fixed)
  have 2: "dropWhile isWhiteSpace (rev (trim s)) = rev (trim s)"
    by (simp add: trim_def)
  show ?thesis
    unfolding trim_def [of "trim s"] 1 2 by simp
qed

lemma isValidMint_trim: "isValidMint (trim m) = isValidMint m"
  by (simp add: isValidMint_def trim_idem)

lemma scanStep_valid:
  assumes "\<forall>s. searchedMint st = Some s \<longrightarrow> isValidMint s"
  shows "\<forall>s. searchedMint (scanStep st e) = Some s \<longrightarrow> isValidMint s"
  using assms by (cases e) (simp_all add: canScan_def isValidMint_trim)

lemma scanRun_valid:
  assumes "\<forall>s. searchedMint st = Some s \<longrightarrow> isValidMint s"
  shows "\<forall>s. searchedMint (foldl scanStep st es) = Some s \<longrightarrow> isValidMint s"
  using assms
proof (induction es arbitrary: st)
  case Nil
  then show ?case by simp
next
  case (Cons e es)
  have "\<forall>s. searchedMint (scanStep st e) = Some s \<longrightarrow> isValidMint s"
    using Cons.prems by (rule scanStep_valid)
  then have "\<forall>s. searchedMint (foldl scanStep (scanStep st e) es) = Some s \<longrightarrow> isValidMint s"
    by (rule Cons.IH)
  then show ?case by simp
qed

text \<open>
  Claim C9. A string passes \<^verbatim>\<open>isValidMint\<close> exactly when its trimmed form has between
  32 and 44 code units, all of them Base58 characters (the digits 1 to 9 and the ASCII
  letters without \<^verbatim>\<open>O\<close>, \<^verbatim>\<open>I\<close> and \<^verbatim>\<open>l\<close>). A handler sets a new scanned mint only
  when the input passes the test, to the trimmed input; so from mount on, through any
  sequence of edits, pastes, key presses and clicks, the scanned mint, when there is
  one, passes the test.
\<close>

theorem isValidMint_iff:
  "(isValidMint m \<longleftrightarrow>
      32 \<le> length (trim m) \<and> length (trim m) \<le> 44 \<and> (\<forall>c\<in>set (trim m). specBase58 c))
   \<and> (searchedMint (scanStep st e) \<noteq> searchedMint st \<and> searchedMint (scanStep st e) \<noteq> None
        \<longrightarrow> isValidMint (inputMint st) \<and> searchedMint (scanStep st e) = Some (trim (inputMint st)))
   \<and> (searchedMint (foldl scanStep (scanInit m0) es) = Some s \<longrightarrow> isValidMint s)"
proof (intro conjI)
  have "trim m \<noteq> []" if "32 \<le> length (trim m)"
    using that by auto
  then show "isValidMint m \<longleftrightarrow>
      32 \<le> length (trim m) \<and> length (trim m) \<le> 44 \<and> (\<forall>c\<in>set (trim m). specBase58 c)"
    by (auto simp add: isValidMint_def Let_def BASE58_RE_test_def list_all_iff base58Class_spec)
  show "searchedMint (scanStep st e) \<noteq> searchedMint st \<and> searchedMint (scanStep st e) \<noteq> None
        \<longrightarrow> isValidMint (inputMint st) \<and> searchedMint (scanStep st e) = Some (trim (inputMint st))"
    by (cases e) (simp_all add: canScan_def)
  have "\<forall>s. searchedMint (scanInit m0) = Some s \<longrightarrow> isValidMint s"
    by (simp add: scanInit_def)
  then have "\<forall>s. searchedMint (foldl scanStep (scanInit m0) es) = Some s \<longrightarrow> isValidMint s"
    by (rule scanRun_valid)
  then show "searchedMint (foldl scanStep (scanInit m0) es) = Some s \<longrightarrow> isValidMint s"
    by simp
qed


theorem isValidMint_iff_witness:
  "isValidMint (map of_char '' So11111111111111111111111111111111111111112 '')
   \<and> \<not> isValidMint (map of_char ''So11111111111111111111111111111111111111112O'')
   \<and> \<not> isValidMint (map of_char ''abc'')"
proof -
  have t1: "trim (map of_char '' So11111111111111111111111111111111111111112 '') = map of_char ''So11111111111111111111111111111111111111112''"
    by (simp add: trim_def isWhiteSpace_def)
  have t2: "trim (map of_char ''So11111111111111111111111111111111111111112O'') = map of_char ''So11111111111111111111111111111111111111112O''"
    by (simp add: trim_def isWhiteSpace_def)
  have t3: "trim (map of_char ''abc'') = map of_char ''abc''"
    by (simp add: trim_def isWhiteSpace_def)
  have 1: "isValidMint (map of_char '' So11111111111111111111111111111111111111112 '')"
    unfolding isValidMint_iff [THEN conjunct1] t1
    by (simp add: specBase58_def inRange_def)
  have 2: "\<not> isValidMint (map of_char ''So11111111111111111111111111111111111111112O'')"
    unfolding isValidMint_iff [THEN conjunct1] t2
    by (simp add: specBase58_def inRange_def)
  have 3: "\<not> isValidMint (map of_char ''abc'')"
    unfolding isValidMint_iff [THEN conjunct1] t3
    by simp
  from 1 2 3 show ?thesis by (intro conjI)
qed

end
